theory Spec2Isabelle
  imports Main "HOL-Library.Word"
begin

section \<open>Data model of the APNS pusher (pusher/apns.go)\<close>

text \<open>
  Go's \<^verbatim>\<open>int\<close> on the 64-bit targets of the program and \<^verbatim>\<open>time.Duration\<close>
  (an \<^verbatim>\<open>int64\<close> count of nanoseconds) are 64-bit words: multiplication wraps
  silently, as in Go. \<^verbatim>\<open>uint32\<close> and \<^verbatim>\<open>uint64\<close> are words of their width.
\<close>

type_synonym go_int = "64 word"
type_synonym duration = "64 word"
type_synonym uint32 = "32 word"
type_synonym uint64 = "64 word"

text \<open>\<^verbatim>\<open>time.Second\<close>: 1e9 nanoseconds.\<close>

definition Second :: duration where
  "Second = 1000000000"

text \<open>A Go \<^verbatim>\<open>error\<close> value, identified by its message.\<close>

datatype error = Errorf string

text \<open>
  The signals registered by \<^verbatim>\<open>signal.Notify(sigchan, os.Interrupt, syscall.SIGINT,
  syscall.SIGTERM)\<close>; \<^verbatim>\<open>os.Interrupt\<close> is \<^verbatim>\<open>syscall.SIGINT\<close>. Only these are ever
  delivered on \<^verbatim>\<open>sigchan\<close>.
\<close>

datatype signal = SIGINT | SIGTERM

definition Interrupt :: signal where
  "Interrupt = SIGINT"

text \<open>
  A value held by \<^verbatim>\<open>viper.Viper\<close> (an \<^verbatim>\<open>interface{}\<close>), by the kinds that
  \<^verbatim>\<open>GetInt\<close> tells apart: an integer (of any integer type, as the \<^verbatim>\<open>int\<close> it converts
  to), a boolean, a string, and a value that has no integer reading (a list, a map).
  A key whose value is \<^verbatim>\<open>nil\<close> is a key that viper does not find, so \<^verbatim>\<open>nil\<close> is no
  value here. Floating-point values are left out.
\<close>

datatype cfg_value =
  CfgInt go_int
  | CfgBool bool
  | CfgString string
  | CfgUncastable

text \<open>
  \<^verbatim>\<open>viper.Viper\<close> as far as the pusher uses it: the values that take precedence over
  defaults (configuration file, environment), with their keys as they are written
  there, and the defaults, both as association lists.
\<close>

record viper =
  settings :: "(string \<times> cfg_value) list"
  defaults :: "(string \<times> cfg_value) list"

text \<open>
  Keys are case-insensitive: viper lower-cases the key in \<^verbatim>\<open>SetDefault\<close> and in
  every getter, and the keys of what it has read (\<^verbatim>\<open>strings.ToLower\<close>, here on the
  ASCII letters).
\<close>

definition to_lower_char :: "char \<Rightarrow> char" where
  "to_lower_char c =
     (if (65::nat) \<le> of_char c \<and> of_char c \<le> (90::nat)
      then char_of (of_char c + (32::nat)) else c)"

definition to_lower :: "string \<Rightarrow> string" where
  "to_lower s = map to_lower_char s"

definition find_key :: "(string \<times> cfg_value) list \<Rightarrow> string \<Rightarrow> cfg_value option" where
  "find_key kvs k = map_of (map (\<lambda>(k', x). (to_lower k', x)) kvs) (to_lower k)"

definition SetDefault :: "viper \<Rightarrow> string \<Rightarrow> cfg_value \<Rightarrow> viper" where
  "SetDefault v k x = v\<lparr>defaults := (to_lower k, x) # defaults v\<rparr>"

text \<open>
  \<^verbatim>\<open>cast.ToInt\<close>, which \<^verbatim>\<open>GetInt\<close> applies to the value found: an integer is taken
  as it is, a boolean is 1 or 0, a string is what \<^verbatim>\<open>strconv.ParseInt(s, 0, 0)\<close> makes
  of it, and whatever cannot be cast is 0 (the error of the cast is dropped). \<open>parse\<close> stands for \<^verbatim>\<open>strconv.ParseInt(s, 0, 0)\<close> of the standard
  library, \<open>None\<close> when it returns an error.
\<close>

fun ToInt :: "(string \<Rightarrow> go_int option) \<Rightarrow> cfg_value \<Rightarrow> go_int" where
  "ToInt parse (CfgInt n) = n"
| "ToInt parse (CfgBool b) = (if b then 1 else 0)"
| "ToInt parse (CfgString s) = (case parse s of Some n \<Rightarrow> n | None \<Rightarrow> 0)"
| "ToInt parse CfgUncastable = 0"

text \<open>
  \<^verbatim>\<open>GetInt\<close>: the setting under the key, else the default under the key, else 0
  (the cast of \<^verbatim>\<open>nil\<close>).
\<close>

definition GetInt :: "(string \<Rightarrow> go_int option) \<Rightarrow> viper \<Rightarrow> string \<Rightarrow> go_int" where
  "GetInt parse v k =
     (case find_key (settings v) k of
        Some x \<Rightarrow> ToInt parse x
      | None \<Rightarrow>
          (case map_of (defaults v) (to_lower k) of
             Some x \<Rightarrow> ToInt parse x
           | None \<Rightarrow> 0))"

text \<open>
  The collaborators are interface values of packages outside the core. A queue
  (\<^verbatim>\<open>interfaces.Queue\<close>) is known by the channel and the wait group its accessors
  return; sinks, the message handler and the push queue are known by name.
\<close>

record queue =
  MessagesChannel :: nat
  PendingMessagesWaitGroup :: nat

type_synonym stats_reporter = string
type_synonym feedback_reporter = string
type_synonym invalid_token_handler = string
type_synonym push_queue = string
type_synonym logger = string
type_synonym db = string

datatype message_handler = APNSMessageHandler string

text \<open>The struct \<^verbatim>\<open>APNSPusher\<close>; a nil pointer or nil interface field is \<open>None\<close>.\<close>

record APNSPusher =
  AppName :: string
  CertificatePath :: string
  Config :: "viper option"
  ConfigFile :: string
  feedbackReporters :: "feedback_reporter list"
  GracefulShutdownTimeout :: go_int
  InvalidTokenHandlers :: "invalid_token_handler list"
  IsProduction :: bool
  Logger :: logger
  MessageHandler :: "message_handler option"
  PendingMessagesWG :: nat
  Queue :: "queue option"
  run :: bool
  StatsReporters :: "stats_reporter list"

section \<open>Start: the control thread\<close>

text \<open>
  What the control thread of \<^verbatim>\<open>Start\<close> and the stats task do, in program order.
  A \<^verbatim>\<open>go\<close> statement is the action \<open>Go\<close> of the task it launches.
\<close>

datatype task =
  HandleMessages message_handler nat
  | HandleResponses message_handler
  | ConsumeLoop
  | ReportGoStatsLoop

datatype action =
  LogInfo string
  | Go task
  | SignalNotify "signal list"
  | Recv signal
  | LogWarn signal
  | SetRun bool
  | StopConsuming
  | GracefulShutdown nat duration
  | ReportGoStats stats_reporter go_int uint64 uint64 uint64 uint64
  | Sleep duration

text \<open>
  What happens around the control thread while it waits, in the order it happens: a
  registered signal arrives on \<^verbatim>\<open>sigchan\<close>, or the goroutine running
  \<^verbatim>\<open>a.Queue.ConsumeLoop()\<close> returns with an error.
\<close>

datatype env_event = Signal signal | ConsumeLoopExit error

datatype status = Returned | Blocked | Panicked

record start_result =
  pusher :: APNSPusher
  trace :: "action list"
  outcome :: status

text \<open>
  The loop \<^verbatim>\<open>for a.run == true { select { case sig := <-sigchan: ... } }\<close>. The
  \<^verbatim>\<open>select\<close> has the one case, so the thread waits for a signal and for nothing
  else: the exit of the consume goroutine wakes nobody (the \<^verbatim>\<open>go\<close> statement
  discards what \<^verbatim>\<open>ConsumeLoop\<close> returns). When no further signal comes the thread
  stays in the \<^verbatim>\<open>select\<close> for ever: \<open>Blocked\<close>.
\<close>

fun main_loop :: "APNSPusher \<Rightarrow> env_event list \<Rightarrow> action list \<Rightarrow> start_result" where
  "main_loop a evs tr =
     (if run a = True then
        (case evs of
           [] \<Rightarrow> \<lparr>pusher = a, trace = tr, outcome = Blocked\<rparr>
         | Signal sig # rest \<Rightarrow>
             main_loop (a\<lparr>run := False\<rparr>) rest (tr @ [Recv sig, LogWarn sig, SetRun False])
         | ConsumeLoopExit e # rest \<Rightarrow> main_loop a rest tr)
      else \<lparr>pusher = a, trace = tr, outcome = Returned\<rparr>)"

declare main_loop.simps [simp del]

text \<open>
  \<^verbatim>\<open>Start\<close>. A nil \<^verbatim>\<open>MessageHandler\<close> or \<^verbatim>\<open>Queue\<close> panics at the first \<^verbatim>\<open>go\<close>
  statement, whose function value and arguments are evaluated by the caller.

  \<^verbatim>\<open>GracefulShutdown\<close> is a function of the package that is not part of the file.
  Modelled from the spec: \<^verbatim>\<open>GracefulShutdown(wg, timeout)\<close> blocks until the counter
  \<open>wg\<close> reaches zero or \<open>timeout\<close> elapses, whichever is first, and then returns; the
  call is the action \<open>GracefulShutdown wg timeout\<close>, after which \<^verbatim>\<open>Start\<close> returns.
\<close>

definition Start :: "APNSPusher \<Rightarrow> env_event list \<Rightarrow> start_result" where
  "Start a evs =
     (let a1 = a\<lparr>run := True\<rparr>;
          tr0 = [SetRun True, LogInfo ''starting pusher in apns mode...'']
      in case (MessageHandler a1, Queue a1) of
           (Some h, Some q) \<Rightarrow>
             (let tr1 = tr0 @ [Go (HandleMessages h (MessagesChannel q)),
                               Go (HandleResponses h),
                               Go ConsumeLoop,
                               Go ReportGoStatsLoop,
                               SignalNotify [Interrupt, SIGINT, SIGTERM]];
                  r = main_loop a1 evs tr1
              in if outcome r = Returned then
                   r\<lparr>trace := trace r @
                        [StopConsuming,
                         GracefulShutdown (PendingMessagesWaitGroup q)
                           (GracefulShutdownTimeout (pusher r) * Second)]\<rparr>
                 else r)
         | _ \<Rightarrow> \<lparr>pusher = a1, trace = tr0, outcome = Panicked\<rparr>)"

section \<open>reportGoStats: the periodic stats task\<close>

text \<open>
  \<^verbatim>\<open>runtime.MemStats\<close> as far as it is read; the array \<^verbatim>\<open>PauseNs [256]uint64\<close> is a
  function of the index (the code reads it below 256 only). A \<open>runtime\<close> is what the
  task finds at one moment: what \<^verbatim>\<open>runtime.NumGoroutine()\<close> and
  \<^verbatim>\<open>runtime.ReadMemStats\<close> give, and which reporters' \<^verbatim>\<open>ReportGoStats\<close> panics when
  called then (a nil interface value or nil pointer in the slice, an implementation
  that panics). The reporters are values of an interface of another package; whether
  a call of theirs returns is theirs to decide.
\<close>

record MemStats =
  Alloc :: uint64
  HeapObjects :: uint64
  NextGC :: uint64
  NumGC :: uint32
  PauseNs :: "nat \<Rightarrow> uint64"

record runtime =
  NumGoroutine :: go_int
  ReadMemStats :: MemStats
  ReportGoStats_panics :: "stats_reporter \<Rightarrow> bool"

text \<open>\<^verbatim>\<open>gcTime := m.PauseNs[(m.NumGC+255)%256]\<close>, in \<^verbatim>\<open>uint32\<close> arithmetic.\<close>

definition gcTime :: "MemStats \<Rightarrow> uint64" where
  "gcTime m = PauseNs m (unat ((NumGC m + 255) mod 256))"

text \<open>
  The loop \<^verbatim>\<open>for _, statsReporter := range a.StatsReporters { ... }\<close>: the reporters
  are called in order, \<open>call r\<close> being the call of reporter \<open>r\<close>. The call is a
  statement: nothing it gives back is looked at. Nothing recovers from a panic
  (there is no \<^verbatim>\<open>recover\<close> in the file), so a call that panics is the last thing the
  goroutine does. The result is what was done and whether it ended in a panic.
\<close>

fun range_StatsReporters ::
  "(stats_reporter \<Rightarrow> bool) \<Rightarrow> (stats_reporter \<Rightarrow> action) \<Rightarrow> stats_reporter list
     \<Rightarrow> action list \<times> bool" where
  "range_StatsReporters panics call [] = ([], False)"
| "range_StatsReporters panics call (statsReporter # rest) =
     (if panics statsReporter then ([call statsReporter], True)
      else (case range_StatsReporters panics call rest of
              (acts, panicked) \<Rightarrow> (call statsReporter # acts, panicked)))"

text \<open>
  One pass through the body of \<^verbatim>\<open>for { ... }\<close>: the sample is taken, the reporters
  of \<^verbatim>\<open>a.StatsReporters\<close> are called with it, then the task sleeps.
\<close>

definition reportGoStats_body :: "APNSPusher \<Rightarrow> runtime \<Rightarrow> action list \<times> bool" where
  "reportGoStats_body a rt =
     (let num = NumGoroutine rt;
          m = ReadMemStats rt
      in case range_StatsReporters (ReportGoStats_panics rt)
                (\<lambda>statsReporter.
                   ReportGoStats statsReporter num (Alloc m) (HeapObjects m) (NextGC m)
                     (gcTime m))
                (StatsReporters a) of
           (acts, True) \<Rightarrow> (acts, True)
         | (acts, False) \<Rightarrow> (acts @ [Sleep (30 * Second)], False))"

text \<open>
  The task: about to begin pass \<open>i\<close>, having done \<open>tr\<close>, or ended by a panic, having
  done \<open>tr\<close>. An unrecovered panic in a goroutine ends the process.
\<close>

datatype stats_task = Looping nat "action list" | Crashed "action list"

text \<open>
  The loop \<^verbatim>\<open>for { ... }\<close> has no condition and no \<^verbatim>\<open>break\<close> or \<^verbatim>\<open>return\<close>.
  \<open>rts i\<close> is the runtime at pass \<open>i\<close>. The loop is followed for \<open>fuel\<close> passes:
  the value is where the task is then.
\<close>

fun reportGoStats ::
  "APNSPusher \<Rightarrow> (nat \<Rightarrow> runtime) \<Rightarrow> nat \<Rightarrow> nat \<Rightarrow> action list \<Rightarrow> stats_task" where
  "reportGoStats a rts 0 i tr = Looping i tr"
| "reportGoStats a rts (Suc fuel) i tr =
     (case reportGoStats_body a (rts i) of
        (acts, True) \<Rightarrow> Crashed (tr @ acts)
      | (acts, False) \<Rightarrow> reportGoStats a rts fuel (Suc i) (tr @ acts))"

text \<open>What a task has done.\<close>

fun done_by :: "stats_task \<Rightarrow> action list" where
  "done_by (Looping i tr) = tr"
| "done_by (Crashed tr) = tr"

text \<open>
  What the task has done after \<open>n\<close> passes at most (fewer when it has ended in a
  panic), starting at pass \<open>i\<close>.
\<close>

definition reportGoStats_passes ::
  "APNSPusher \<Rightarrow> (nat \<Rightarrow> runtime) \<Rightarrow> nat \<Rightarrow> nat \<Rightarrow> action list" where
  "reportGoStats_passes a rts i n = done_by (reportGoStats a rts n i [])"

section \<open>NewAPNSPusher and configure\<close>

text \<open>
  The constructors and package-level configuration functions that \<^verbatim>\<open>configure\<close> calls
  live in other files and packages (\<^verbatim>\<open>util\<close>, \<^verbatim>\<open>extensions\<close>); they are parameters,
  and so is \<^verbatim>\<open>strconv.ParseInt(s, 0, 0)\<close>, by which viper casts a string.
  \<open>fresh_wg\<close> is the wait group allocated by \<^verbatim>\<open>var wg sync.WaitGroup\<close>.
\<close>

record mh_args =
  mh_configFile :: string
  mh_certificatePath :: string
  mh_appName :: string
  mh_isProduction :: bool
  mh_logger :: logger
  mh_pendingMessagesWG :: nat
  mh_statsReporters :: "stats_reporter list"
  mh_feedbackReporters :: "feedback_reporter list"
  mh_invalidTokenHandlers :: "invalid_token_handler list"
  mh_queue :: "push_queue option"

record deps =
  fresh_wg :: nat
  strconv_ParseInt :: "string \<Rightarrow> go_int option"
  NewViperWithConfigFile :: "string \<Rightarrow> viper"
  pkg_configureStatsReporters ::
    "string \<Rightarrow> logger \<Rightarrow> string \<Rightarrow> viper option \<Rightarrow> error + stats_reporter list"
  pkg_configureFeedbackReporters ::
    "string \<Rightarrow> logger \<Rightarrow> viper option \<Rightarrow> error + feedback_reporter list"
  pkg_configureInvalidTokenHandlers ::
    "viper option \<Rightarrow> logger \<Rightarrow> db option \<Rightarrow> error + invalid_token_handler list"
  NewKafkaConsumer :: "viper option \<Rightarrow> logger \<Rightarrow> error + queue"
  NewAPNSMessageHandler :: "mh_args \<Rightarrow> error + message_handler"

text \<open>
  A method that returns \<^verbatim>\<open>error\<close> gives the receiver as it has left it and the error
  (\<open>None\<close> for \<^verbatim>\<open>nil\<close>). \<^verbatim>\<open>loadConfigurationDefaults\<close> dereferences \<^verbatim>\<open>a.Config\<close>:
  on a nil pointer it panics, which is the value \<open>None\<close>.
\<close>

definition loadConfigurationDefaults :: "APNSPusher \<Rightarrow> APNSPusher option" where
  "loadConfigurationDefaults a =
     (case Config a of
        None \<Rightarrow> None
      | Some v \<Rightarrow>
          Some (a\<lparr>Config := Some (SetDefault v ''gracefulShutdownTimeout'' (CfgInt 10))\<rparr>))"

definition configureFeedbackReporters :: "deps \<Rightarrow> APNSPusher \<Rightarrow> APNSPusher \<times> error option" where
  "configureFeedbackReporters d a =
     (case pkg_configureFeedbackReporters d (ConfigFile a) (Logger a) (Config a) of
        Inl err \<Rightarrow> (a, Some err)
      | Inr reporters \<Rightarrow> (a\<lparr>feedbackReporters := reporters\<rparr>, None))"

text \<open>The argument \<open>statsReporters\<close> is a slice: \<open>None\<close> is the nil slice.\<close>

definition configureStatsReporters ::
  "deps \<Rightarrow> APNSPusher \<Rightarrow> stats_reporter list option \<Rightarrow> APNSPusher \<times> error option" where
  "configureStatsReporters d a statsReporters =
     (case statsReporters of
        Some given \<Rightarrow> (a\<lparr>StatsReporters := given\<rparr>, None)
      | None \<Rightarrow>
          (case pkg_configureStatsReporters d (ConfigFile a) (Logger a) (AppName a) (Config a) of
             Inl err \<Rightarrow> (a, Some err)
           | Inr reporters \<Rightarrow> (a\<lparr>StatsReporters := reporters\<rparr>, None)))"

definition configureInvalidTokenHandlers ::
  "deps \<Rightarrow> APNSPusher \<Rightarrow> db option \<Rightarrow> APNSPusher \<times> error option" where
  "configureInvalidTokenHandlers d a dbOrNil =
     (case pkg_configureInvalidTokenHandlers d (Config a) (Logger a) dbOrNil of
        Inl err \<Rightarrow> (a, Some err)
      | Inr invalidTokenHandlers \<Rightarrow> (a\<lparr>InvalidTokenHandlers := invalidTokenHandlers\<rparr>, None))"

text \<open>The tail of \<^verbatim>\<open>configure\<close>: the queue and the message handler.\<close>

definition configure_queue_and_handler ::
  "deps \<Rightarrow> APNSPusher \<Rightarrow> push_queue option \<Rightarrow> APNSPusher \<times> error option" where
  "configure_queue_and_handler d a queue =
     (case NewKafkaConsumer d (Config a) (Logger a) of
        Inl err \<Rightarrow> (a, Some err)
      | Inr q \<Rightarrow>
          (let a1 = a\<lparr>Queue := Some q\<rparr> in
           case NewAPNSMessageHandler d
                  \<lparr>mh_configFile = ConfigFile a1,
                   mh_certificatePath = CertificatePath a1,
                   mh_appName = AppName a1,
                   mh_isProduction = IsProduction a1,
                   mh_logger = Logger a1,
                   mh_pendingMessagesWG = PendingMessagesWaitGroup q,
                   mh_statsReporters = StatsReporters a1,
                   mh_feedbackReporters = feedbackReporters a1,
                   mh_invalidTokenHandlers = InvalidTokenHandlers a1,
                   mh_queue = queue\<rparr> of
             Inl err \<Rightarrow> (a1, Some err)
           | Inr handler \<Rightarrow> (a1\<lparr>MessageHandler := Some handler\<rparr>, None)))"

definition configure ::
  "deps \<Rightarrow> APNSPusher \<Rightarrow> push_queue option \<Rightarrow> db option \<Rightarrow> stats_reporter list option
     \<Rightarrow> (APNSPusher \<times> error option) option" where
  "configure d a queue dbOrNil statsReporters =
     (case loadConfigurationDefaults
             (a\<lparr>Config := Some (NewViperWithConfigFile d (ConfigFile a))\<rparr>) of
        None \<Rightarrow> None
      | Some a1 \<Rightarrow>
          (case Config a1 of
             None \<Rightarrow> None
           | Some v \<Rightarrow>
               (let a2 = a1\<lparr>GracefulShutdownTimeout :=
                               GetInt (strconv_ParseInt d) v ''gracefulShutdownTimeout''\<rparr> in
                case configureStatsReporters d a2 statsReporters of
                  (a3, Some err) \<Rightarrow> Some (a3, Some err)
                | (a3, None) \<Rightarrow>
                    (case configureFeedbackReporters d a3 of
                       (a4, Some err) \<Rightarrow> Some (a4, Some err)
                     | (a4, None) \<Rightarrow>
                         (case configureInvalidTokenHandlers d a4 dbOrNil of
                            (a5, Some err) \<Rightarrow> Some (a5, Some err)
                          | (a5, None) \<Rightarrow> Some (configure_queue_and_handler d a5 queue))))))"

text \<open>
  \<^verbatim>\<open>NewAPNSPusher\<close>: \<open>Inl err\<close> is the pair \<^verbatim>\<open>(nil, err)\<close>, \<open>Inr a\<close> the pair
  \<^verbatim>\<open>(a, nil)\<close>; \<open>None\<close> is a panic. \<open>queueOrNil\<close> is the variadic argument.
\<close>

definition NewAPNSPusher ::
  "deps \<Rightarrow> string \<Rightarrow> string \<Rightarrow> string \<Rightarrow> bool \<Rightarrow> logger \<Rightarrow> stats_reporter list option
     \<Rightarrow> db option \<Rightarrow> push_queue list \<Rightarrow> (error + APNSPusher) option" where
  "NewAPNSPusher d configFile certificatePath appName isProduction logger' statsReporters
       db' queueOrNil =
     (let a = \<lparr>AppName = appName,
               CertificatePath = certificatePath,
               Config = None,
               ConfigFile = configFile,
               feedbackReporters = [],
               GracefulShutdownTimeout = 0,
               InvalidTokenHandlers = [],
               IsProduction = isProduction,
               Logger = logger',
               MessageHandler = None,
               PendingMessagesWG = fresh_wg d,
               Queue = None,
               run = False,
               StatsReporters = []\<rparr>;
          queue = (if length queueOrNil > 0 then Some (queueOrNil ! 0) else None)
      in case configure d a queue db' statsReporters of
           None \<Rightarrow> None
         | Some (a', Some err) \<Rightarrow> Some (Inl err)
         | Some (a', None) \<Rightarrow> Some (Inr a'))"

section \<open>Fan-out to sinks (package extensions)\<close>

text \<open>
  The fan-out helpers \<^verbatim>\<open>handleInvalidToken\<close> and \<^verbatim>\<open>sendToFeedbackReporters\<close> are
  known from their unit tests only; the helpers, the sinks behind them and the test
  doubles \<^verbatim>\<open>mocks.PGMock\<close> and \<^verbatim>\<open>mocks.KafkaProducerClientMock\<close> are modelled from the
  spec and from what the tests observe.
\<close>

text \<open>
  Modelled from the spec: the backing store of an invalid-token handler, after the test
  double \<^verbatim>\<open>PGMock\<close> (missing: mocks/pg.go). \<open>Execs\<close> lists every statement executed
  with its arguments, \<open>Error\<close> is the error every execution returns, if set. The tests
  find the statement in \<open>Execs\<close> also when \<open>Error\<close> is set.
\<close>

record PGMock =
  Execs :: "(string \<times> string list) list"
  Error :: "error option"

text \<open>
  Modelled from the spec: the store's \<^verbatim>\<open>Exec\<close> (missing: mocks/pg.go), which records
  the statement and then returns the error that is set.
\<close>

definition Exec :: "PGMock \<Rightarrow> string \<Rightarrow> string list \<Rightarrow> PGMock \<times> error option" where
  "Exec m query args = (m\<lparr>Execs := Execs m @ [(query, args)]\<rparr>, Error m)"

text \<open>
  Modelled from the spec: a feedback sink, after \<^verbatim>\<open>KafkaProducerClientMock\<close> (missing:
  mocks/kafka.go): the messages it was given, and the transport error every delivery
  returns, if set.
\<close>

record ProducerMock =
  Sent :: "string list"
  ProduceError :: "error option"

text \<open>
  Modelled from the spec: the client's delivery (missing: mocks/kafka.go), which records
  the message and then returns the error that is set.
\<close>

definition Produce :: "ProducerMock \<Rightarrow> string \<Rightarrow> ProducerMock \<times> error option" where
  "Produce m msg = (m\<lparr>Sent := Sent m @ [msg]\<rparr>, ProduceError m)"

text \<open>
  Modelled from the spec: an entry of the error log ("a failing sink is caught,
  logged"), with the name of the sink and the error.
\<close>

datatype log_entry = LogError string error

text \<open>
  Modelled from the spec: the objects the sinks point to, by address, and the log. Two
  handlers may share a store, as two Go values may hold the same pointer.
\<close>

record world =
  dbs :: "nat \<Rightarrow> PGMock"
  producers :: "nat \<Rightarrow> ProducerMock"
  log :: "log_entry list"

text \<open>
  Modelled from the spec: an invalid-token handler (missing: extensions/token_pg.go,
  \<^verbatim>\<open>NewTokenPG\<close>), with its table and the address of its backing store.
\<close>

record TokenPG =
  table :: string
  tp_db :: nat

text \<open>
  Modelled from the spec: a feedback reporter (missing: extensions/kafka_producer.go,
  \<^verbatim>\<open>NewKafkaProducer\<close>), with its topic and the address of its client.
\<close>

record KafkaProducer =
  topic :: string
  kp_client :: nat

text \<open>
  Modelled from the spec: the removal statement of a handler; for the table
  \<^verbatim>\<open>test_apns\<close> it is the one the tests expect, with the token as its argument.
\<close>

definition delete_query :: "TokenPG \<Rightarrow> string" where
  "delete_query h = ''DELETE FROM '' @ table h @ '' WHERE token = ?0;''"

text \<open>
  Modelled from the spec: \<^verbatim>\<open>HandleToken\<close> (missing: extensions/token_pg.go), "performs
  an idempotent removal/mark against its backing store; may fail".
\<close>

definition HandleToken :: "TokenPG \<Rightarrow> string \<Rightarrow> world \<Rightarrow> world \<times> error option" where
  "HandleToken h token w =
     (case Exec (dbs w (tp_db h)) (delete_query h) [token] of
        (m, err) \<Rightarrow> (w\<lparr>dbs := (dbs w)(tp_db h := m)\<rparr>, err))"

text \<open>
  Modelled from the spec: \<^verbatim>\<open>SendFeedback\<close> (missing: extensions/kafka_producer.go),
  "accepts a serializable outcome payload; may fail with a transport error".
\<close>

definition SendFeedback :: "KafkaProducer \<Rightarrow> string \<Rightarrow> world \<Rightarrow> world \<times> error option" where
  "SendFeedback r msg w =
     (case Produce (producers w (kp_client r)) msg of
        (m, err) \<Rightarrow> (w\<lparr>producers := (producers w)(kp_client r := m)\<rparr>, err))"

text \<open>
  Modelled from the spec (missing: extensions/common.go, \<^verbatim>\<open>handleInvalidToken\<close>):
  "each handler's underlying delete/mark operation is invoked; any handler error is
  logged and does not stop subsequent handlers nor surface to the caller". The helper
  has no result; the tests call it as a statement.
\<close>

fun handleInvalidToken :: "TokenPG list \<Rightarrow> string \<Rightarrow> world \<Rightarrow> world" where
  "handleInvalidToken [] token w = w"
| "handleInvalidToken (h # hs) token w =
     (case HandleToken h token w of
        (w', None) \<Rightarrow> handleInvalidToken hs token w'
      | (w', Some err) \<Rightarrow>
          handleInvalidToken hs token (w'\<lparr>log := log w' @ [LogError (table h) err]\<rparr>))"

text \<open>
  Modelled from the spec: the payloads of a feedback call, Go values of a few kinds; a
  channel is known by the type of its elements.
\<close>

datatype go_value =
  GoNil
  | GoBool bool
  | GoString string
  | GoChan string
  | GoFunc

text \<open>
  Modelled from the spec: the canonical interchange representation,
  \<^verbatim>\<open>json.Marshal\<close> of the standard library, as far as the tests exercise it: a
  channel or a function cannot be serialized, and the error for \<^verbatim>\<open>make(chan int)\<close>
  reads \<^verbatim>\<open>json: unsupported type: chan int\<close>. Strings are taken to hold no
  character that needs escaping.
\<close>

fun json_Marshal :: "go_value \<Rightarrow> error + string" where
  "json_Marshal GoNil = Inr ''null''"
| "json_Marshal (GoBool b) = Inr (if b then ''true'' else ''false'')"
| "json_Marshal (GoString s) = Inr ([CHR 0x22] @ s @ [CHR 0x22])"
| "json_Marshal (GoChan t) = Inl (Errorf (''json: unsupported type: chan '' @ t))"
| "json_Marshal GoFunc = Inl (Errorf ''json: unsupported type: func()'')"

text \<open>
  Modelled from the spec: the per-sink loop of a feedback call, "a failing sink is
  caught, logged, and iteration continues".
\<close>

fun feedback_fanout :: "KafkaProducer list \<Rightarrow> string \<Rightarrow> world \<Rightarrow> world" where
  "feedback_fanout [] jres w = w"
| "feedback_fanout (r # rs) jres w =
     (case SendFeedback r jres w of
        (w', None) \<Rightarrow> feedback_fanout rs jres w'
      | (w', Some err) \<Rightarrow>
          feedback_fanout rs jres (w'\<lparr>log := log w' @ [LogError (topic r) err]\<rparr>))"

text \<open>
  Modelled from the spec (missing: extensions/common.go, \<^verbatim>\<open>sendToFeedbackReporters\<close>):
  "Feedback delivery first serializes the outcome to a canonical interchange
  representation; if serialization itself fails, the entire fan-out call aborts with
  that error and delivers to zero sinks". The result is the error returned, \<open>None\<close>
  for \<^verbatim>\<open>nil\<close>.
\<close>

definition sendToFeedbackReporters ::
  "KafkaProducer list \<Rightarrow> go_value \<Rightarrow> world \<Rightarrow> world \<times> error option" where
  "sendToFeedbackReporters feedbackReporters' res w =
     (case json_Marshal res of
        Inl err \<Rightarrow> (w, Some err)
      | Inr jres \<Rightarrow> (feedback_fanout feedbackReporters' jres w, None))"

section \<open>Notions used in the statements\<close>

text \<open>What \<^verbatim>\<open>Start\<close> does before it waits for the first signal.\<close>

definition startup :: "message_handler \<Rightarrow> queue \<Rightarrow> action list" where
  "startup h q =
     [SetRun True, LogInfo ''starting pusher in apns mode...'',
      Go (HandleMessages h (MessagesChannel q)), Go (HandleResponses h), Go ConsumeLoop,
      Go ReportGoStatsLoop, SignalNotify [SIGINT, SIGINT, SIGTERM]]"

text \<open>The first signal among the events, if there is one.\<close>

fun first_signal :: "env_event list \<Rightarrow> signal option" where
  "first_signal [] = None"
| "first_signal (Signal s # evs) = Some s"
| "first_signal (ConsumeLoopExit e # evs) = first_signal evs"

text \<open>The tasks launched by \<^verbatim>\<open>go\<close> statements in a trace, in order.\<close>

fun launched :: "action list \<Rightarrow> task list" where
  "launched [] = []"
| "launched (Go t # acts) = t # launched acts"
| "launched (_ # acts) = launched acts"

text \<open>
  The reporters whose call is reached in one pass: all up to and including the first
  whose call panics.
\<close>

fun reached :: "(stats_reporter \<Rightarrow> bool) \<Rightarrow> stats_reporter list \<Rightarrow> stats_reporter list" where
  "reached panics [] = []"
| "reached panics (r # rs) = r # (if panics r then [] else reached panics rs)"

subsection \<open>Concrete values\<close>

definition example_queue :: queue where
  "example_queue = \<lparr>MessagesChannel = 1, PendingMessagesWaitGroup = 2\<rparr>"

definition example_pusher :: APNSPusher where
  "example_pusher =
     \<lparr>AppName = ''testapp'', CertificatePath = ''cert.pem'', Config = None,
      ConfigFile = ''test.yaml'', feedbackReporters = [''kafka''],
      GracefulShutdownTimeout = 10, InvalidTokenHandlers = [''pg''], IsProduction = False,
      Logger = ''logger'', MessageHandler = Some (APNSMessageHandler ''apns''),
      PendingMessagesWG = 0, Queue = Some example_queue, run = False,
      StatsReporters = [''statsd'']\<rparr>"

definition example_memstats :: MemStats where
  "example_memstats =
     \<lparr>Alloc = 4096, HeapObjects = 12, NextGC = 8192, NumGC = 4294967295,
      PauseNs = (\<lambda>i. if i = 254 then 777 else 0)\<rparr>"

definition example_runtime :: runtime where
  "example_runtime =
     \<lparr>NumGoroutine = 5, ReadMemStats = example_memstats,
      ReportGoStats_panics = (\<lambda>r. False)\<rparr>"

text \<open>
  A pusher with three stats reporters, and a moment at which the call of the second
  one panics.
\<close>

definition example_three_reporters :: APNSPusher where
  "example_three_reporters =
     example_pusher\<lparr>StatsReporters := [''statsd-a'', ''statsd-b'', ''statsd-c'']\<rparr>"

definition example_broken_runtime :: runtime where
  "example_broken_runtime =
     \<lparr>NumGoroutine = 5, ReadMemStats = example_memstats,
      ReportGoStats_panics = (\<lambda>r. r = ''statsd-b'')\<rparr>"

text \<open>
  The configuration \<^verbatim>\<open>configure\<close> works with (the file's, with the default
  added), what its first step gives (the reporters handed in, or else the result of the
  package-level function), and the arguments with which it calls
  \<^verbatim>\<open>extensions.NewAPNSMessageHandler\<close>.
\<close>

definition configured_viper :: "deps \<Rightarrow> string \<Rightarrow> viper" where
  "configured_viper d configFile =
     SetDefault (NewViperWithConfigFile d configFile) ''gracefulShutdownTimeout'' (CfgInt 10)"

definition stats_step ::
  "deps \<Rightarrow> string \<Rightarrow> logger \<Rightarrow> string \<Rightarrow> stats_reporter list option
     \<Rightarrow> error + stats_reporter list" where
  "stats_step d configFile lg appName statsReporters =
     (case statsReporters of
        Some given \<Rightarrow> Inr given
      | None \<Rightarrow>
          pkg_configureStatsReporters d configFile lg appName
            (Some (configured_viper d configFile)))"

definition handler_args ::
  "string \<Rightarrow> string \<Rightarrow> string \<Rightarrow> bool \<Rightarrow> logger \<Rightarrow> queue \<Rightarrow> stats_reporter list
     \<Rightarrow> feedback_reporter list \<Rightarrow> invalid_token_handler list \<Rightarrow> push_queue list \<Rightarrow> mh_args" where
  "handler_args cf cp an ip lg q rs frs ihs queueOrNil =
     \<lparr>mh_configFile = cf, mh_certificatePath = cp, mh_appName = an, mh_isProduction = ip,
      mh_logger = lg, mh_pendingMessagesWG = PendingMessagesWaitGroup q,
      mh_statsReporters = rs, mh_feedbackReporters = frs, mh_invalidTokenHandlers = ihs,
      mh_queue = (case queueOrNil of [] \<Rightarrow> None | first # _ \<Rightarrow> Some first)\<rparr>"

text \<open>
  Collaborators for concrete runs: step number \<open>failing\<close> of the five fails (none for
  0), the configuration file holds \<open>file\<close>, the one string that parses is \<^verbatim>\<open>20\<close>,
  and the message handler is named after the push queue it was given.
\<close>

definition example_parse :: "string \<Rightarrow> go_int option" where
  "example_parse s = (if s = ''20'' then Some 20 else None)"

definition example_deps :: "nat \<Rightarrow> (string \<times> cfg_value) list \<Rightarrow> deps" where
  "example_deps failing file =
     \<lparr>fresh_wg = 7,
      strconv_ParseInt = example_parse,
      NewViperWithConfigFile = (\<lambda>cf. \<lparr>settings = file, defaults = []\<rparr>),
      pkg_configureStatsReporters =
        (\<lambda>cf lg an v. if failing = 1 then Inl (Errorf ''statsd'') else Inr [''statsd'']),
      pkg_configureFeedbackReporters =
        (\<lambda>cf lg v. if failing = 2 then Inl (Errorf ''kafka producer'') else Inr [''kafka'']),
      pkg_configureInvalidTokenHandlers =
        (\<lambda>v lg d. if failing = 3 then Inl (Errorf ''pg'') else Inr [''pg'']),
      NewKafkaConsumer =
        (\<lambda>v lg. if failing = 4 then Inl (Errorf ''kafka consumer'') else Inr example_queue),
      NewAPNSMessageHandler =
        (\<lambda>args. if failing = 5 then Inl (Errorf ''certificate'')
                 else Inr (APNSMessageHandler
                             (case mh_queue args of None \<Rightarrow> ''apns'' | Some q \<Rightarrow> q)))\<rparr>"

text \<open>The pusher that these collaborators build when no step fails.\<close>

definition example_configured :: "(string \<times> cfg_value) list \<Rightarrow> APNSPusher" where
  "example_configured file =
     \<lparr>AppName = ''testapp'', CertificatePath = ''cert.pem'',
      Config = Some \<lparr>settings = file,
                     defaults = [(''gracefulshutdowntimeout'', CfgInt 10)]\<rparr>,
      ConfigFile = ''test.yaml'', feedbackReporters = [''kafka''],
      GracefulShutdownTimeout =
        GetInt example_parse
          \<lparr>settings = file, defaults = [(''gracefulshutdowntimeout'', CfgInt 10)]\<rparr>
          ''gracefulShutdownTimeout'',
      InvalidTokenHandlers = [''pg''], IsProduction = False, Logger = ''logger'',
      MessageHandler = Some (APNSMessageHandler ''apns''), PendingMessagesWG = 7,
      Queue = Some example_queue, run = False, StatsReporters = [''statsd'']\<rparr>"

text \<open>
  Three handlers and three reporters, each with an object of its own; the store and the
  producer client at address 1 fail on every call. Every store has executed one
  statement before.
\<close>

definition example_world :: world where
  "example_world =
     \<lparr>dbs = (\<lambda>k. \<lparr>Execs = [(''select 1'', [])],
                     Error = (if k = 1 then Some (Errorf ''pg: error'') else None)\<rparr>),
      producers = (\<lambda>k. \<lparr>Sent = [],
                     ProduceError = (if k = 1 then Some (Errorf ''kafka: timeout'') else None)\<rparr>),
      log = []\<rparr>"

definition example_handlers :: "TokenPG list" where
  "example_handlers =
     [\<lparr>table = ''test_apns'', tp_db = 0\<rparr>, \<lparr>table = ''test_apns'', tp_db = 1\<rparr>,
      \<lparr>table = ''test_apns'', tp_db = 2\<rparr>]"

definition example_reporters :: "KafkaProducer list" where
  "example_reporters =
     [\<lparr>topic = ''feedback-a'', kp_client = 0\<rparr>, \<lparr>topic = ''feedback-b'', kp_client = 1\<rparr>,
      \<lparr>topic = ''feedback-c'', kp_client = 2\<rparr>]"

section \<open>The control thread of Start\<close>

lemma example_pusher_handler: "MessageHandler example_pusher = Some (APNSMessageHandler ''apns'')"
  by (simp add: example_pusher_def)

lemma example_pusher_queue: "Queue example_pusher = Some example_queue"
  by (simp add: example_pusher_def)

lemma main_loop_stopped:
  "\<not> run a \<Longrightarrow> main_loop a evs tr = \<lparr>pusher = a, trace = tr, outcome = Returned\<rparr>"
  by (simp add: main_loop.simps)

lemma main_loop_running:
  "run a \<Longrightarrow> main_loop a evs tr =
     (case first_signal evs of
        None \<Rightarrow> \<lparr>pusher = a, trace = tr, outcome = Blocked\<rparr>
      | Some s \<Rightarrow> \<lparr>pusher = a\<lparr>run := False\<rparr>,
                   trace = tr @ [Recv s, LogWarn s, SetRun False], outcome = Returned\<rparr>)"
proof (induction evs rule: first_signal.induct)
  case 1
  then show ?case by (simp add: main_loop.simps [of a "[]"])
next
  case (2 s evs)
  then show ?case by (simp add: main_loop.simps [of a "Signal s # evs"] main_loop_stopped)
next
  case (3 e evs)
  then show ?case by (simp add: main_loop.simps [of a "ConsumeLoopExit e # evs"])
qed

lemma Start_run:
  assumes "MessageHandler a = Some h" and "Queue a = Some q"
  shows "Start a evs =
     (case first_signal evs of
        None \<Rightarrow> \<lparr>pusher = a\<lparr>run := True\<rparr>, trace = startup h q, outcome = Blocked\<rparr>
      | Some s \<Rightarrow>
          \<lparr>pusher = a\<lparr>run := False\<rparr>,
           trace = startup h q @
             [Recv s, LogWarn s, SetRun False, StopConsuming,
              GracefulShutdown (PendingMessagesWaitGroup q) (GracefulShutdownTimeout a * Second)],
           outcome = Returned\<rparr>)"
  using assms
  by (simp add: Start_def Let_def main_loop_running startup_def Interrupt_def
           split: option.splits)

text \<open>
  C1. In every run of \<^verbatim>\<open>Start\<close> on a pusher with a message handler and a queue: when
  no signal arrives the thread stays blocked with the run flag true, having neither
  stopped the queue nor started the drain wait. When a signal \<open>s\<close> arrives, the thread
  receives it, sets the run flag false, leaves the loop, calls the queue's
  \<^verbatim>\<open>StopConsuming\<close> (exactly once in the whole run) and only then calls
  \<^verbatim>\<open>GracefulShutdown\<close> on the queue's pending-messages wait group with the configured
  timeout; nothing follows, and \<^verbatim>\<open>Start\<close> returns.
\<close>

theorem Start_stop_intake_precedes_drain:
  assumes "MessageHandler a = Some h" and "Queue a = Some q"
  shows "(case first_signal evs of
            None \<Rightarrow>
              outcome (Start a evs) = Blocked \<and> run (pusher (Start a evs)) = True
              \<and> trace (Start a evs) = startup h q
          | Some s \<Rightarrow>
              outcome (Start a evs) = Returned \<and> run (pusher (Start a evs)) = False
              \<and> trace (Start a evs) = startup h q @
                   [Recv s, LogWarn s, SetRun False, StopConsuming,
                    GracefulShutdown (PendingMessagesWaitGroup q)
                      (GracefulShutdownTimeout a * Second)]
              \<and> count_list (trace (Start a evs)) StopConsuming = 1)
         \<and> StopConsuming \<notin> set (startup h q)
         \<and> (\<forall>wg t. GracefulShutdown wg t \<notin> set (startup h q))"
  by (simp add: Start_run [OF assms] startup_def split: option.splits)

theorem Start_stop_intake_precedes_drain_witness:
  "outcome (Start example_pusher
              [ConsumeLoopExit (Errorf ''EOF''), Signal SIGTERM, Signal SIGINT]) = Returned
   \<and> trace (Start example_pusher
              [ConsumeLoopExit (Errorf ''EOF''), Signal SIGTERM, Signal SIGINT]) =
       startup (APNSMessageHandler ''apns'') example_queue @
         [Recv SIGTERM, LogWarn SIGTERM, SetRun False, StopConsuming,
          GracefulShutdown 2 10000000000]"
  using Start_stop_intake_precedes_drain
    [OF example_pusher_handler example_pusher_queue,
     of "[ConsumeLoopExit (Errorf ''EOF''), Signal SIGTERM, Signal SIGINT]"]
  by (simp add: example_pusher_def example_queue_def Second_def)

text \<open>
  C2, as the claim states it, fails: when the consume loop exits with an error and no
  signal arrives, \<^verbatim>\<open>Start\<close> stays blocked and never stops the queue, whereas a
  signal makes it stop the queue and return.
\<close>

theorem consume_loop_exit_is_not_a_shutdown_counterexample:
  "outcome (Start example_pusher [ConsumeLoopExit (Errorf ''kafka: broker down'')]) = Blocked
   \<and> StopConsuming \<notin>
       set (trace (Start example_pusher [ConsumeLoopExit (Errorf ''kafka: broker down'')]))
   \<and> outcome (Start example_pusher [Signal SIGTERM]) = Returned
   \<and> StopConsuming \<in> set (trace (Start example_pusher [Signal SIGTERM]))"
  by (simp add: Start_run [OF example_pusher_handler example_pusher_queue] startup_def)

lemma first_signal_exits: "first_signal (map ConsumeLoopExit es @ evs) = first_signal evs"
  by (induction es) simp_all

text \<open>
  C2 (amended). The control thread does not react to the exit of the consume loop:
  exits of the consume loop before the events \<open>evs\<close> leave the run of \<^verbatim>\<open>Start\<close> as
  it is on \<open>evs\<close> alone; as long as only such exits happen \<^verbatim>\<open>Start\<close> stays blocked
  and neither stops the queue nor starts the drain wait; the shutdown sequence begins
  once a signal arrives.
\<close>

theorem consume_loop_exit_ignored:
  assumes "MessageHandler a = Some h" and "Queue a = Some q"
  shows "Start a (map ConsumeLoopExit es @ evs) = Start a evs
         \<and> outcome (Start a (map ConsumeLoopExit es)) = Blocked
         \<and> StopConsuming \<notin> set (trace (Start a (map ConsumeLoopExit es)))
         \<and> (\<forall>wg t. GracefulShutdown wg t \<notin> set (trace (Start a (map ConsumeLoopExit es))))
         \<and> outcome (Start a (map ConsumeLoopExit es @ Signal s # evs)) = Returned"
proof -
  have "first_signal (map ConsumeLoopExit es) = None"
    using first_signal_exits [of es "[]"] by simp
  then show ?thesis
    by (simp add: Start_run [OF assms] first_signal_exits startup_def)
qed

theorem consume_loop_exit_ignored_witness:
  "Start example_pusher (map ConsumeLoopExit [Errorf ''kafka: broker down''] @ [Signal SIGINT])
     = Start example_pusher [Signal SIGINT]
   \<and> outcome (Start example_pusher (map ConsumeLoopExit [Errorf ''kafka: broker down'']))
       = Blocked"
  using consume_loop_exit_ignored
    [OF example_pusher_handler example_pusher_queue,
     of "[Errorf ''kafka: broker down'']" "[Signal SIGINT]"]
  by simp

section \<open>The periodic stats task\<close>

lemma range_StatsReporters_eq:
  "range_StatsReporters p call rs = (map call (reached p rs), list_ex p rs)"
  by (induction rs) simp_all

lemma reached_all: "\<not> list_ex p rs \<Longrightarrow> reached p rs = rs"
  by (induction rs) simp_all

lemma reached_sublist: "set (reached p rs) \<subseteq> set rs"
  by (induction rs) auto

lemma reportGoStats_body_snd:
  "snd (reportGoStats_body a rt) = list_ex (ReportGoStats_panics rt) (StatsReporters a)"
  by (simp add: reportGoStats_body_def Let_def range_StatsReporters_eq split: bool.splits)

lemma reportGoStats_body_fst:
  "fst (reportGoStats_body a rt) =
     map (\<lambda>r. ReportGoStats r (NumGoroutine rt) (Alloc (ReadMemStats rt))
                 (HeapObjects (ReadMemStats rt)) (NextGC (ReadMemStats rt))
                 (gcTime (ReadMemStats rt)))
         (reached (ReportGoStats_panics rt) (StatsReporters a))
     @ (if list_ex (ReportGoStats_panics rt) (StatsReporters a) then []
        else [Sleep (30 * Second)])"
  by (simp add: reportGoStats_body_def Let_def range_StatsReporters_eq split: bool.splits)




lemma reportGoStats_from_nothing:
  "reportGoStats a rts n i tr =
     (case reportGoStats a rts n i [] of
        Looping j tr' \<Rightarrow> Looping j (tr @ tr')
      | Crashed tr' \<Rightarrow> Crashed (tr @ tr'))"
proof (induction n arbitrary: i tr)
  case 0
  show ?case by simp
next
  case (Suc n)
  show ?case
  proof (cases "reportGoStats_body a (rts i)")
    case (Pair acts panicked)
    show ?thesis
    proof (cases panicked)
      case True
      with Pair show ?thesis by simp
    next
      case False
      with Pair show ?thesis
        using Suc.IH [of "Suc i" "tr @ acts"] Suc.IH [of "Suc i" acts]
        by (simp split: stats_task.splits)
    qed
  qed
qed




lemma reportGoStats_passes_0: "reportGoStats_passes a rts i 0 = []"
  by (simp add: reportGoStats_passes_def)

lemma reportGoStats_passes_Suc:
  "reportGoStats_passes a rts i (Suc n) =
     fst (reportGoStats_body a (rts i))
     @ (if snd (reportGoStats_body a (rts i)) then [] else reportGoStats_passes a rts (Suc i) n)"
proof (cases "reportGoStats_body a (rts i)")
  case (Pair acts panicked)
  then show ?thesis
    using reportGoStats_from_nothing [of a rts n "Suc i" acts]
    by (cases panicked) (simp_all add: reportGoStats_passes_def split: stats_task.splits)
qed

lemma reportGoStats_body_actions:
  "x \<in> set (fst (reportGoStats_body a rt)) \<Longrightarrow>
     (\<exists>r n al ho ng g. x = ReportGoStats r n al ho ng g) \<or> x = Sleep (30 * Second)"
  by (auto simp: reportGoStats_body_fst split: if_splits)




lemma example_broken_pass:
  "reportGoStats_body example_three_reporters example_broken_runtime =
     ([ReportGoStats ''statsd-a'' 5 4096 12 8192 777,
       ReportGoStats ''statsd-b'' 5 4096 12 8192 777], True)"
  by (simp add: reportGoStats_body_def Let_def example_three_reporters_def
        example_broken_runtime_def example_memstats_def gcTime_def)




lemma PauseNs_index: "unat (((n::32 word) + 255) mod 256) = (unat n + 255) mod 256"
proof -
  have "unat ((n + 255) mod 256) = unat (n + 255) mod 256"
    by (simp add: unat_mod)
  also have "unat (n + 255) = (unat n + 255) mod 2 ^ 32"
    by (simp add: unat_word_ariths)
  also have "(unat n + 255) mod 2 ^ 32 mod 256 = (unat n + 255) mod 256"
  proof (rule mod_mod_cancel)
    have "(2::nat) ^ 32 = 256 * 2 ^ 24" by simp
    then show "(256::nat) dvd 2 ^ 32" by (metis dvd_triv_left)
  qed
  finally show ?thesis .
qed

lemma previous_slot: "0 < (k::nat) \<Longrightarrow> (k + 255) mod 256 = (k - 1) mod 256"
proof -
  assume "0 < k"
  then have "k + 255 = (k - 1) + 256" by simp
  then show ?thesis by (metis mod_add_self2)
qed

text \<open>
  C8. Every call of a stats reporter carries five values: the goroutine count, the
  allocated bytes, the live heap objects, the next-collection threshold and the entry
  of the pause buffer at index \<open>(NumGC + 255) mod 256\<close>, where the sum is the sum of
  natural numbers: the wrap-around of the 32-bit addition does not change the index.
  This holds for every call made in a pass, and when no call panics the pass is the
  calls of all reporters and the sleep. The index is below 256, and once a collection
  was counted it is the slot of collection number \<open>NumGC - 1\<close>, the most recent one.
\<close>

theorem runtime_sample_fields:
  "fst (reportGoStats_body a rt) =
     map (\<lambda>r. ReportGoStats r (NumGoroutine rt) (Alloc (ReadMemStats rt))
                 (HeapObjects (ReadMemStats rt)) (NextGC (ReadMemStats rt))
                 (PauseNs (ReadMemStats rt) ((unat (NumGC (ReadMemStats rt)) + 255) mod 256)))
         (reached (ReportGoStats_panics rt) (StatsReporters a))
     @ (if list_ex (ReportGoStats_panics rt) (StatsReporters a) then []
        else [Sleep (30 * Second)])
   \<and> (\<not> list_ex (ReportGoStats_panics rt) (StatsReporters a) \<longrightarrow>
        reportGoStats_body a rt =
          (map (\<lambda>r. ReportGoStats r (NumGoroutine rt) (Alloc (ReadMemStats rt))
                       (HeapObjects (ReadMemStats rt)) (NextGC (ReadMemStats rt))
                       (PauseNs (ReadMemStats rt)
                          ((unat (NumGC (ReadMemStats rt)) + 255) mod 256)))
               (StatsReporters a)
           @ [Sleep (30 * Second)], False))
   \<and> (unat (NumGC (ReadMemStats rt)) + 255) mod 256 < 256
   \<and> (0 < unat (NumGC (ReadMemStats rt)) \<longrightarrow>
        gcTime (ReadMemStats rt) =
          PauseNs (ReadMemStats rt) ((unat (NumGC (ReadMemStats rt)) - 1) mod 256))"
proof -
  have slot: "gcTime (ReadMemStats rt) =
      PauseNs (ReadMemStats rt) ((unat (NumGC (ReadMemStats rt)) + 255) mod 256)"
    by (simp add: gcTime_def PauseNs_index)
  have calls: "fst (reportGoStats_body a rt) =
     map (\<lambda>r. ReportGoStats r (NumGoroutine rt) (Alloc (ReadMemStats rt))
                 (HeapObjects (ReadMemStats rt)) (NextGC (ReadMemStats rt))
                 (PauseNs (ReadMemStats rt) ((unat (NumGC (ReadMemStats rt)) + 255) mod 256)))
         (reached (ReportGoStats_panics rt) (StatsReporters a))
     @ (if list_ex (ReportGoStats_panics rt) (StatsReporters a) then []
        else [Sleep (30 * Second)])"
    by (simp only: reportGoStats_body_fst slot)
  have whole: "\<not> list_ex (ReportGoStats_panics rt) (StatsReporters a) \<longrightarrow>
        reportGoStats_body a rt =
          (map (\<lambda>r. ReportGoStats r (NumGoroutine rt) (Alloc (ReadMemStats rt))
                       (HeapObjects (ReadMemStats rt)) (NextGC (ReadMemStats rt))
                       (PauseNs (ReadMemStats rt)
                          ((unat (NumGC (ReadMemStats rt)) + 255) mod 256)))
               (StatsReporters a)
           @ [Sleep (30 * Second)], False)"
    using calls reportGoStats_body_snd [of a rt]
    by (cases "reportGoStats_body a rt") (auto simp: reached_all)
  have older: "0 < unat (NumGC (ReadMemStats rt)) \<longrightarrow>
        gcTime (ReadMemStats rt) =
          PauseNs (ReadMemStats rt) ((unat (NumGC (ReadMemStats rt)) - 1) mod 256)"
    by (simp add: slot previous_slot)
  from calls whole older show ?thesis by simp
qed

theorem runtime_sample_fields_witness:
  "0 < unat (NumGC (ReadMemStats example_runtime))
   \<and> \<not> list_ex (ReportGoStats_panics example_runtime) (StatsReporters example_pusher)
   \<and> gcTime (ReadMemStats example_runtime) = 777
   \<and> reportGoStats_body example_pusher example_runtime =
        ([ReportGoStats ''statsd'' 5 4096 12 8192 777, Sleep 30000000000], False)"
  using runtime_sample_fields [of example_pusher example_runtime]
  by (simp add: example_runtime_def example_memstats_def example_pusher_def Second_def
        list_ex_iff)

lemma launched_append: "launched (xs @ ys) = launched xs @ launched ys"
  by (induction xs rule: launched.induct) simp_all

lemma launched_reports: "launched (map (\<lambda>r. ReportGoStats r n x y z g) rs) = []"
  by (induction rs) simp_all

lemma launched_body: "launched (fst (reportGoStats_body a rt)) = []"
  by (simp add: reportGoStats_body_fst launched_append launched_reports)

lemma launched_passes: "launched (reportGoStats_passes a rts i n) = []"
  by (induction n arbitrary: i)
     (simp_all add: reportGoStats_passes_0 reportGoStats_passes_Suc launched_append
        launched_body)

section \<open>Launching the tasks\<close>

text \<open>
  C9, as the claim states it, fails: \<^verbatim>\<open>Start\<close> has no guard against a second call.
  Called again on the pusher that a first call has left, it launches the four tasks a
  second time.
\<close>

theorem second_Start_launches_again_counterexample:
  "launched (trace (Start example_pusher [Signal SIGINT])
             @ trace (Start (pusher (Start example_pusher [Signal SIGINT])) [Signal SIGTERM])) =
     [HandleMessages (APNSMessageHandler ''apns'') 1, HandleResponses (APNSMessageHandler ''apns''),
      ConsumeLoop, ReportGoStatsLoop,
      HandleMessages (APNSMessageHandler ''apns'') 1, HandleResponses (APNSMessageHandler ''apns''),
      ConsumeLoop, ReportGoStatsLoop]"
proof -
  have first: "Start example_pusher [Signal SIGINT] =
      \<lparr>pusher = example_pusher\<lparr>run := False\<rparr>,
       trace = startup (APNSMessageHandler ''apns'') example_queue @
         [Recv SIGINT, LogWarn SIGINT, SetRun False, StopConsuming,
          GracefulShutdown (PendingMessagesWaitGroup example_queue)
            (GracefulShutdownTimeout example_pusher * Second)],
       outcome = Returned\<rparr>"
    by (simp add: Start_run [OF example_pusher_handler example_pusher_queue])
  have again: "MessageHandler (example_pusher\<lparr>run := False\<rparr>) = Some (APNSMessageHandler ''apns'')"
    "Queue (example_pusher\<lparr>run := False\<rparr>) = Some example_queue"
    by (simp_all add: example_pusher_handler example_pusher_queue)
  show ?thesis
    by (simp add: first Start_run [OF again] startup_def launched_append example_queue_def)
qed

text \<open>
  C9 (amended). Every call of \<^verbatim>\<open>Start\<close> on a pusher with a message handler and a
  queue launches exactly four tasks: one intake loop on the queue's channel, one
  response loop, one consume loop and one stats loop, in this order, whatever the state
  of the pusher and whatever happens afterwards; the stats task launches nothing; and
  the call leaves the handler and the queue in place, so that a further call launches
  the same four again.
\<close>

theorem Start_launches_each_loop_once:
  assumes "MessageHandler a = Some h" and "Queue a = Some q"
  shows "launched (trace (Start a evs)) =
           [HandleMessages h (MessagesChannel q), HandleResponses h, ConsumeLoop,
            ReportGoStatsLoop]
         \<and> launched (reportGoStats_passes a rts i n) = []
         \<and> MessageHandler (pusher (Start a evs)) = Some h
         \<and> Queue (pusher (Start a evs)) = Some q"
  using assms
  by (simp add: Start_run [OF assms] startup_def launched_passes split: option.splits)

theorem Start_launches_each_loop_once_witness:
  "launched (trace (Start example_pusher [Signal SIGINT])) =
     [HandleMessages (APNSMessageHandler ''apns'') 1, HandleResponses (APNSMessageHandler ''apns''),
      ConsumeLoop, ReportGoStatsLoop]"
  using Start_launches_each_loop_once
    [OF example_pusher_handler example_pusher_queue, of "[Signal SIGINT]"]
  by (simp add: example_queue_def)

section \<open>Construction and configuration\<close>

lemma GetInt_default:
  "GetInt parse (SetDefault v k x) k =
     (case find_key (settings v) k of Some y \<Rightarrow> ToInt parse y | None \<Rightarrow> ToInt parse x)"
  by (simp add: GetInt_def SetDefault_def split: option.splits)

lemma NewAPNSPusher_flat:
  "NewAPNSPusher d cf cp an ip lg srs db' qs =
     Some (case stats_step d cf lg an srs of
        Inl e \<Rightarrow> Inl e
      | Inr rs \<Rightarrow>
         (case pkg_configureFeedbackReporters d cf lg (Some (configured_viper d cf)) of
            Inl e \<Rightarrow> Inl e
          | Inr frs \<Rightarrow>
             (case pkg_configureInvalidTokenHandlers d (Some (configured_viper d cf)) lg db' of
                Inl e \<Rightarrow> Inl e
              | Inr ihs \<Rightarrow>
                 (case NewKafkaConsumer d (Some (configured_viper d cf)) lg of
                    Inl e \<Rightarrow> Inl e
                  | Inr q \<Rightarrow>
                     (case NewAPNSMessageHandler d (handler_args cf cp an ip lg q rs frs ihs qs) of
                        Inl e \<Rightarrow> Inl e
                      | Inr h \<Rightarrow>
                          Inr \<lparr>AppName = an, CertificatePath = cp,
                               Config = Some (configured_viper d cf), ConfigFile = cf,
                               feedbackReporters = frs,
                               GracefulShutdownTimeout =
                                 GetInt (strconv_ParseInt d) (configured_viper d cf)
                                   ''gracefulShutdownTimeout'',
                               InvalidTokenHandlers = ihs, IsProduction = ip, Logger = lg,
                               MessageHandler = Some h, PendingMessagesWG = fresh_wg d,
                               Queue = Some q, run = False, StatsReporters = rs\<rparr>)))))"
  by (cases qs)
     (simp_all add: NewAPNSPusher_def configure_def loadConfigurationDefaults_def Let_def
        configureStatsReporters_def configureFeedbackReporters_def
        configureInvalidTokenHandlers_def configure_queue_and_handler_def
        stats_step_def configured_viper_def handler_args_def
      split: sum.splits option.splits)

text \<open>
  C10. \<^verbatim>\<open>NewAPNSPusher\<close> never panics. If the stats-reporter step fails, or it
  succeeds and the feedback-reporter step fails, or these succeed and the
  invalid-token-handler step fails, or these succeed and the creation of the queue
  fails, or these succeed and the creation of the message handler fails, then the
  result is the nil pusher with the error of that step. If the result is a pusher, all
  five steps have succeeded and the pusher holds what they returned. The message
  handler is created with the first element of the variadic argument as its push
  queue when there is one, and with nil otherwise.
\<close>

theorem NewAPNSPusher_all_or_nothing:
  "NewAPNSPusher d cf cp an ip lg srs db' qs \<noteq> None
   \<and> (\<forall>e. stats_step d cf lg an srs = Inl e \<longrightarrow>
          NewAPNSPusher d cf cp an ip lg srs db' qs = Some (Inl e))
   \<and> (\<forall>rs e. stats_step d cf lg an srs = Inr rs
          \<and> pkg_configureFeedbackReporters d cf lg (Some (configured_viper d cf)) = Inl e \<longrightarrow>
          NewAPNSPusher d cf cp an ip lg srs db' qs = Some (Inl e))
   \<and> (\<forall>rs frs e. stats_step d cf lg an srs = Inr rs
          \<and> pkg_configureFeedbackReporters d cf lg (Some (configured_viper d cf)) = Inr frs
          \<and> pkg_configureInvalidTokenHandlers d (Some (configured_viper d cf)) lg db' = Inl e \<longrightarrow>
          NewAPNSPusher d cf cp an ip lg srs db' qs = Some (Inl e))
   \<and> (\<forall>rs frs ihs e. stats_step d cf lg an srs = Inr rs
          \<and> pkg_configureFeedbackReporters d cf lg (Some (configured_viper d cf)) = Inr frs
          \<and> pkg_configureInvalidTokenHandlers d (Some (configured_viper d cf)) lg db' = Inr ihs
          \<and> NewKafkaConsumer d (Some (configured_viper d cf)) lg = Inl e \<longrightarrow>
          NewAPNSPusher d cf cp an ip lg srs db' qs = Some (Inl e))
   \<and> (\<forall>rs frs ihs q e. stats_step d cf lg an srs = Inr rs
          \<and> pkg_configureFeedbackReporters d cf lg (Some (configured_viper d cf)) = Inr frs
          \<and> pkg_configureInvalidTokenHandlers d (Some (configured_viper d cf)) lg db' = Inr ihs
          \<and> NewKafkaConsumer d (Some (configured_viper d cf)) lg = Inr q
          \<and> NewAPNSMessageHandler d (handler_args cf cp an ip lg q rs frs ihs qs) = Inl e \<longrightarrow>
          NewAPNSPusher d cf cp an ip lg srs db' qs = Some (Inl e))
   \<and> (\<forall>a. NewAPNSPusher d cf cp an ip lg srs db' qs = Some (Inr a) \<longrightarrow>
          (\<exists>rs frs ihs q h.
             stats_step d cf lg an srs = Inr rs
             \<and> pkg_configureFeedbackReporters d cf lg (Some (configured_viper d cf)) = Inr frs
             \<and> pkg_configureInvalidTokenHandlers d (Some (configured_viper d cf)) lg db' = Inr ihs
             \<and> NewKafkaConsumer d (Some (configured_viper d cf)) lg = Inr q
             \<and> NewAPNSMessageHandler d (handler_args cf cp an ip lg q rs frs ihs qs) = Inr h
             \<and> StatsReporters a = rs \<and> feedbackReporters a = frs
             \<and> InvalidTokenHandlers a = ihs \<and> Queue a = Some q \<and> MessageHandler a = Some h))
   \<and> (\<forall>first rest. qs = first # rest \<longrightarrow>
          mh_queue (handler_args cf cp an ip lg q' rs' frs' ihs' qs) = Some first)
   \<and> (qs = [] \<longrightarrow> mh_queue (handler_args cf cp an ip lg q' rs' frs' ihs' qs) = None)"
  by (auto simp: NewAPNSPusher_flat handler_args_def split: sum.splits)


theorem NewAPNSPusher_all_or_nothing_witness:
  "NewAPNSPusher (example_deps 1 []) ''test.yaml'' ''cert.pem'' ''testapp'' False ''logger''
      None None [] = Some (Inl (Errorf ''statsd''))
   \<and> NewAPNSPusher (example_deps 2 []) ''test.yaml'' ''cert.pem'' ''testapp'' False ''logger''
      None None [] = Some (Inl (Errorf ''kafka producer''))
   \<and> NewAPNSPusher (example_deps 3 []) ''test.yaml'' ''cert.pem'' ''testapp'' False ''logger''
      None None [] = Some (Inl (Errorf ''pg''))
   \<and> NewAPNSPusher (example_deps 4 []) ''test.yaml'' ''cert.pem'' ''testapp'' False ''logger''
      None None [] = Some (Inl (Errorf ''kafka consumer''))
   \<and> NewAPNSPusher (example_deps 5 []) ''test.yaml'' ''cert.pem'' ''testapp'' False ''logger''
      None None [] = Some (Inl (Errorf ''certificate''))
   \<and> map_option (map_sum id MessageHandler)
        (NewAPNSPusher (example_deps 0 []) ''test.yaml'' ''cert.pem'' ''testapp'' False ''logger''
           None None [''fake queue'', ''other''])
       = Some (Inr (Some (APNSMessageHandler ''fake queue'')))
   \<and> map_option (map_sum id MessageHandler)
        (NewAPNSPusher (example_deps 1 []) ''test.yaml'' ''cert.pem'' ''testapp'' False ''logger''
           (Some [''given'']) None [])
       = Some (Inr (Some (APNSMessageHandler ''apns'')))"
  using
    NewAPNSPusher_all_or_nothing [of "example_deps 1 []" "''test.yaml''" "''cert.pem''"
      "''testapp''" False "''logger''" None None "[]"]
    NewAPNSPusher_all_or_nothing [of "example_deps 2 []" "''test.yaml''" "''cert.pem''"
      "''testapp''" False "''logger''" None None "[]"]
    NewAPNSPusher_all_or_nothing [of "example_deps 3 []" "''test.yaml''" "''cert.pem''"
      "''testapp''" False "''logger''" None None "[]"]
    NewAPNSPusher_all_or_nothing [of "example_deps 4 []" "''test.yaml''" "''cert.pem''"
      "''testapp''" False "''logger''" None None "[]"]
    NewAPNSPusher_all_or_nothing [of "example_deps 5 []" "''test.yaml''" "''cert.pem''"
      "''testapp''" False "''logger''" None None "[]"]
    NewAPNSPusher_all_or_nothing [of "example_deps 0 []" "''test.yaml''" "''cert.pem''"
      "''testapp''" False "''logger''" None None "[''fake queue'', ''other'']"]
  by (simp add: NewAPNSPusher_flat example_deps_def stats_step_def handler_args_def)

lemma seconds_in_range:
  fixes t :: duration
  assumes "- 9223372036 \<le> sint t" and "sint t \<le> 9223372036"
  shows "sint (t * Second) = sint t * 1000000000"
proof -
  have "sint (t * Second) = signed_take_bit 63 (sint t * sint Second)"
    by (simp add: sint_word_ariths)
  also have "sint Second = 1000000000"
    by (simp add: Second_def)
  also have "signed_take_bit 63 (sint t * 1000000000) = sint t * 1000000000"
  proof (rule signed_take_bit_int_eq_self)
    show "- (2 ^ 63) \<le> sint t * 1000000000" using assms(1) by simp
    show "sint t * 1000000000 < 2 ^ 63" using assms(2) by simp
  qed
  finally show ?thesis .
qed

lemma example_key:
  "to_lower ''gracefulShutdownTimeout'' = ''gracefulshutdowntimeout''"
  "to_lower ''GRACEFULSHUTDOWNTIMEOUT'' = ''gracefulshutdowntimeout''"
  by code_simp+

lemma example_configured_built:
  "NewAPNSPusher (example_deps 0 file) ''test.yaml'' ''cert.pem'' ''testapp'' False ''logger''
     None None [] = Some (Inr (example_configured file))"
  by (simp add: NewAPNSPusher_flat example_deps_def stats_step_def handler_args_def
        configured_viper_def SetDefault_def example_configured_def example_key)

lemma example_configured_handler:
  "MessageHandler (example_configured file) = Some (APNSMessageHandler ''apns'')"
  by (simp add: example_configured_def)

lemma example_configured_queue: "Queue (example_configured file) = Some example_queue"
  by (simp add: example_configured_def)

text \<open>
  C6, as the claim states it, fails: with 9223372037 seconds in the configuration file
  the pusher is built, reads that value, and on a signal calls \<^verbatim>\<open>GracefulShutdown\<close>
  with a negative duration, the product having wrapped around.
\<close>

theorem drain_bound_wraps_counterexample:
  "NewAPNSPusher (example_deps 0 [(''gracefulShutdownTimeout'', CfgInt 9223372037)])
      ''test.yaml'' ''cert.pem'' ''testapp'' False ''logger'' None None []
     = Some (Inr (example_configured [(''gracefulShutdownTimeout'', CfgInt 9223372037)]))
   \<and> GracefulShutdownTimeout
       (example_configured [(''gracefulShutdownTimeout'', CfgInt 9223372037)]) = 9223372037
   \<and> last (trace (Start (example_configured [(''gracefulShutdownTimeout'', CfgInt 9223372037)])
                    [Signal SIGTERM]))
       = GracefulShutdown 2 (9223372037 * Second)
   \<and> sint (9223372037 * Second) = - 9223372036709551616"
proof -
  have timeout: "GracefulShutdownTimeout
       (example_configured [(''gracefulShutdownTimeout'', CfgInt 9223372037)]) = 9223372037"
    by (simp add: example_configured_def GetInt_def find_key_def example_key)
  have drain: "last (trace (Start (example_configured
                 [(''gracefulShutdownTimeout'', CfgInt 9223372037)]) [Signal SIGTERM]))
       = GracefulShutdown 2 (9223372037 * Second)"
    by (simp add: Start_run [OF example_configured_handler example_configured_queue] timeout
          example_queue_def)
  have wrapped: "sint (9223372037 * Second) = - 9223372036709551616"
    by (simp add: Second_def)
  from example_configured_built timeout drain wrapped show ?thesis by simp
qed

text \<open>
  C6 (amended). In a pusher built by \<^verbatim>\<open>NewAPNSPusher\<close> the shutdown timeout is the
  value found in the configuration under the key \<^verbatim>\<open>gracefulShutdownTimeout\<close> (in any
  spelling of upper and lower case), cast to an integer, and 10 when the configuration
  has no value under it. When the pusher is started and a signal arrives, the call
  that follows \<^verbatim>\<open>StopConsuming\<close> is \<^verbatim>\<open>GracefulShutdown\<close> with the duration
  \<^verbatim>\<open>time.Duration(a.GracefulShutdownTimeout) * time.Second\<close>. For a timeout of at
  most 9223372036 seconds in absolute value the product does not wrap around and is
  that number of seconds in nanoseconds.
\<close>

theorem drain_timeout_from_configuration:
  assumes "NewAPNSPusher d cf cp an ip lg srs db' qs = Some (Inr a)"
  shows "GracefulShutdownTimeout a =
           (case find_key (settings (NewViperWithConfigFile d cf)) ''gracefulShutdownTimeout'' of
              Some x \<Rightarrow> ToInt (strconv_ParseInt d) x
            | None \<Rightarrow> 10)
         \<and> (\<forall>s. first_signal evs = Some s \<longrightarrow>
               (\<exists>h q. MessageHandler a = Some h \<and> Queue a = Some q
                  \<and> trace (Start a evs) = startup h q @
                      [Recv s, LogWarn s, SetRun False, StopConsuming,
                       GracefulShutdown (PendingMessagesWaitGroup q)
                         (GracefulShutdownTimeout a * Second)]))
         \<and> (- 9223372036 \<le> sint (GracefulShutdownTimeout a)
              \<and> sint (GracefulShutdownTimeout a) \<le> 9223372036 \<longrightarrow>
              sint (GracefulShutdownTimeout a * Second)
                = sint (GracefulShutdownTimeout a) * 1000000000)"
proof -
  from assms obtain h q where fields:
    "MessageHandler a = Some h" "Queue a = Some q"
    "GracefulShutdownTimeout a =
       GetInt (strconv_ParseInt d) (configured_viper d cf) ''gracefulShutdownTimeout''"
    by (auto simp: NewAPNSPusher_flat split: sum.splits)
  have read: "GracefulShutdownTimeout a =
           (case find_key (settings (NewViperWithConfigFile d cf)) ''gracefulShutdownTimeout'' of
              Some x \<Rightarrow> ToInt (strconv_ParseInt d) x
            | None \<Rightarrow> 10)"
    by (simp add: fields(3) configured_viper_def GetInt_default split: option.splits)
  have drain: "\<forall>s. first_signal evs = Some s \<longrightarrow>
               (\<exists>h q. MessageHandler a = Some h \<and> Queue a = Some q
                  \<and> trace (Start a evs) = startup h q @
                      [Recv s, LogWarn s, SetRun False, StopConsuming,
                       GracefulShutdown (PendingMessagesWaitGroup q)
                         (GracefulShutdownTimeout a * Second)])"
    by (simp add: Start_run [OF fields(1) fields(2)] fields(1) fields(2))
  from read drain seconds_in_range [of "GracefulShutdownTimeout a"] show ?thesis
    by blast
qed

theorem drain_timeout_from_configuration_witness:
  "NewAPNSPusher (example_deps 0 []) ''test.yaml'' ''cert.pem'' ''testapp'' False ''logger''
     None None [] = Some (Inr (example_configured []))
   \<and> GracefulShutdownTimeout (example_configured []) = 10
   \<and> first_signal [Signal SIGTERM] = Some SIGTERM
   \<and> last (trace (Start (example_configured []) [Signal SIGTERM]))
       = GracefulShutdown 2 10000000000
   \<and> sint (GracefulShutdownTimeout (example_configured []) * Second) = 10 * 1000000000
   \<and> last (trace (Start (example_configured [(''gracefulShutdownTimeout'', CfgInt 25)])
                    [Signal SIGTERM]))
       = GracefulShutdown 2 25000000000
   \<and> last (trace (Start (example_configured [(''GRACEFULSHUTDOWNTIMEOUT'', CfgString ''20'')])
                    [Signal SIGTERM]))
       = GracefulShutdown 2 20000000000"
  using drain_timeout_from_configuration
      [OF example_configured_built [of "[]"], of "[Signal SIGTERM]"]
    drain_timeout_from_configuration
      [OF example_configured_built [of "[(''gracefulShutdownTimeout'', CfgInt 25)]"],
       of "[Signal SIGTERM]"]
    drain_timeout_from_configuration
      [OF example_configured_built [of "[(''GRACEFULSHUTDOWNTIMEOUT'', CfgString ''20'')]"],
       of "[Signal SIGTERM]"]
    example_configured_built [of "[]"]
  by (simp add: example_deps_def example_configured_def GetInt_def find_key_def example_key
        example_parse_def example_queue_def Second_def)

section \<open>Fan-out to sinks\<close>

lemma Error_after_Exec:
  "Error (((dbs w)(k := (dbs w k)\<lparr>Execs := xs\<rparr>)) j) = Error (dbs w j)"
  by simp

lemma handleInvalidToken_producers:
  "producers (handleInvalidToken hs token w) = producers w"
  by (induction hs arbitrary: w) (simp_all add: HandleToken_def Exec_def split: option.splits)

lemma handleInvalidToken_Execs:
  "Execs (dbs (handleInvalidToken hs token w) k) =
     Execs (dbs w k) @ map (\<lambda>h. (delete_query h, [token])) (filter (\<lambda>h. tp_db h = k) hs)"
  by (induction hs arbitrary: w) (simp_all add: HandleToken_def Exec_def split: option.splits)

lemma handleInvalidToken_Error:
  "Error (dbs (handleInvalidToken hs token w) k) = Error (dbs w k)"
  by (induction hs arbitrary: w) (simp_all add: HandleToken_def Exec_def split: option.splits)

lemma handleInvalidToken_log:
  "log (handleInvalidToken hs token w) =
     log w @ concat (map (\<lambda>h. case Error (dbs w (tp_db h)) of
                                 None \<Rightarrow> [] | Some err \<Rightarrow> [LogError (table h) err]) hs)"
  by (induction hs arbitrary: w)
     (simp_all add: HandleToken_def Exec_def Error_after_Exec del: fun_upd_apply
        split: option.splits)

lemma ProduceError_after_Produce:
  "ProduceError (((producers w)(k := (producers w k)\<lparr>Sent := xs\<rparr>)) j) =
     ProduceError (producers w j)"
  by simp

lemma feedback_fanout_dbs: "dbs (feedback_fanout rs jres w) = dbs w"
  by (induction rs arbitrary: w) (simp_all add: SendFeedback_def Produce_def split: option.splits)

lemma feedback_fanout_Sent:
  "Sent (producers (feedback_fanout rs jres w) k) =
     Sent (producers w k) @ map (\<lambda>r. jres) (filter (\<lambda>r. kp_client r = k) rs)"
  by (induction rs arbitrary: w) (simp_all add: SendFeedback_def Produce_def split: option.splits)

lemma feedback_fanout_log:
  "log (feedback_fanout rs jres w) =
     log w @ concat (map (\<lambda>r. case ProduceError (producers w (kp_client r)) of
                                 None \<Rightarrow> [] | Some err \<Rightarrow> [LogError (topic r) err]) rs)"
  by (induction rs arbitrary: w)
     (simp_all add: SendFeedback_def Produce_def ProduceError_after_Produce del: fun_upd_apply
        split: option.splits)


lemma delivered_to_store:
  assumes "h \<in> set hs"
  shows "(delete_query h, [token]) \<in>
     set (drop (length (Execs (dbs w (tp_db h))))
            (Execs (dbs (handleInvalidToken hs token w) (tp_db h))))"
  using assms by (simp add: handleInvalidToken_Execs)

lemma failure_logged:
  assumes "h \<in> set hs" and "Error (dbs w (tp_db h)) = Some err"
  shows "LogError (table h) err \<in>
     set (drop (length (log w)) (log (handleInvalidToken hs token w)))"
proof -
  have "LogError (table h) err \<in>
      set (case Error (dbs w (tp_db h)) of None \<Rightarrow> [] | Some e \<Rightarrow> [LogError (table h) e])"
    using assms(2) by simp
  with assms(1) show ?thesis
    by (auto simp add: handleInvalidToken_log simp del: fun_upd_apply)
qed

lemma reached_nth:
  "j < length rs \<Longrightarrow> (\<forall>k<j. \<not> p (rs ! k)) \<Longrightarrow> rs ! j \<in> set (reached p rs)"
proof (induction rs arbitrary: j)
  case Nil
  then show ?case by simp
next
  case (Cons r rs)
  show ?case
  proof (cases j)
    case 0
    then show ?thesis by simp
  next
    case (Suc j')
    have "\<not> p r" using Cons.prems(2) Suc by auto
    moreover have "\<forall>k<j'. \<not> p (rs ! k)" using Cons.prems(2) Suc by auto
    moreover have "j' < length rs" using Cons.prems(1) Suc by simp
    ultimately show ?thesis using Cons.IH [of j'] Suc by simp
  qed
qed

lemma reached_stops:
  "j < length rs \<Longrightarrow> p (rs ! j) \<Longrightarrow> length (reached p rs) \<le> Suc j"
proof (induction rs arbitrary: j)
  case Nil
  then show ?case by simp
next
  case (Cons r rs)
  show ?case
  proof (cases j)
    case 0
    then show ?thesis using Cons.prems by simp
  next
    case (Suc j')
    then show ?thesis using Cons.IH [of j'] Cons.prems by simp
  qed
qed

text \<open>
  C3, as the claim states it, fails on the Stats sink set: when the call of the second
  of three reporters panics, nothing catches or logs it, the third reporter is not
  called, and the task ends there.
\<close>

theorem panicking_reporter_not_isolated_counterexample:
  "reportGoStats_body example_three_reporters example_broken_runtime =
     ([ReportGoStats ''statsd-a'' 5 4096 12 8192 777,
       ReportGoStats ''statsd-b'' 5 4096 12 8192 777], True)
   \<and> ReportGoStats ''statsd-c'' 5 4096 12 8192 777
       \<notin> set (fst (reportGoStats_body example_three_reporters example_broken_runtime))
   \<and> reportGoStats example_three_reporters (\<lambda>i. example_broken_runtime) 1 0 [] =
       Crashed [ReportGoStats ''statsd-a'' 5 4096 12 8192 777,
                ReportGoStats ''statsd-b'' 5 4096 12 8192 777]"
  by (simp add: example_broken_pass)

text \<open>
  C3 (amended). Invalid-token handling appends the removal of the token to the store
  of every handler, in the order of the handlers, and logs one entry for each handler
  whose store returned an error; a feedback call whose payload can be serialized gives
  the serialized payload to every reporter, logs one entry for each reporter that
  failed, and returns no error. In one pass of the stats task a reporter is called with
  the sample whenever the calls of the reporters before it have returned, and when all
  calls return the pass is these calls and the sleep; nothing is logged in the pass;
  a call that panics ends the pass and the task: no reporter after it is called and
  the task does not sleep.
\<close>

theorem sink_failure_is_isolated_unless_panic:
  "(\<forall>k. Execs (dbs (handleInvalidToken hs token w) k) =
          Execs (dbs w k) @ map (\<lambda>h. (delete_query h, [token])) (filter (\<lambda>h. tp_db h = k) hs))
   \<and> (\<forall>j<length hs.
         (delete_query (hs ! j), [token]) \<in>
           set (drop (length (Execs (dbs w (tp_db (hs ! j)))))
                  (Execs (dbs (handleInvalidToken hs token w) (tp_db (hs ! j))))))
   \<and> log (handleInvalidToken hs token w) =
       log w @ concat (map (\<lambda>h. case Error (dbs w (tp_db h)) of
                                   None \<Rightarrow> [] | Some err \<Rightarrow> [LogError (table h) err]) hs)
   \<and> (\<forall>k. Sent (producers (feedback_fanout rs jres w) k) =
          Sent (producers w k) @ map (\<lambda>r. jres) (filter (\<lambda>r. kp_client r = k) rs))
   \<and> log (feedback_fanout rs jres w) =
       log w @ concat (map (\<lambda>r. case ProduceError (producers w (kp_client r)) of
                                   None \<Rightarrow> [] | Some err \<Rightarrow> [LogError (topic r) err]) rs)
   \<and> (\<forall>j. json_Marshal res = Inr j \<longrightarrow>
          sendToFeedbackReporters rs res w = (feedback_fanout rs j w, None))
   \<and> (\<forall>j<length (StatsReporters a).
         (\<forall>k<j. \<not> ReportGoStats_panics rt (StatsReporters a ! k)) \<longrightarrow>
         ReportGoStats (StatsReporters a ! j) (NumGoroutine rt) (Alloc (ReadMemStats rt))
           (HeapObjects (ReadMemStats rt)) (NextGC (ReadMemStats rt))
           (gcTime (ReadMemStats rt)) \<in> set (fst (reportGoStats_body a rt)))
   \<and> (\<not> list_ex (ReportGoStats_panics rt) (StatsReporters a) \<longrightarrow>
         \<not> snd (reportGoStats_body a rt)
         \<and> length (fst (reportGoStats_body a rt)) = length (StatsReporters a) + 1)
   \<and> (\<forall>j<length (StatsReporters a).
         ReportGoStats_panics rt (StatsReporters a ! j) \<longrightarrow>
         snd (reportGoStats_body a rt)
         \<and> length (fst (reportGoStats_body a rt)) \<le> Suc j
         \<and> Sleep (30 * Second) \<notin> set (fst (reportGoStats_body a rt)))
   \<and> (\<forall>x \<in> set (fst (reportGoStats_body a rt)).
         (\<forall>m. x \<noteq> LogInfo m) \<and> (\<forall>s. x \<noteq> LogWarn s))"
proof -
  let ?call = "\<lambda>r. ReportGoStats r (NumGoroutine rt) (Alloc (ReadMemStats rt))
           (HeapObjects (ReadMemStats rt)) (NextGC (ReadMemStats rt))
           (gcTime (ReadMemStats rt))"
  have called: "\<forall>j<length (StatsReporters a).
         (\<forall>k<j. \<not> ReportGoStats_panics rt (StatsReporters a ! k)) \<longrightarrow>
         ?call (StatsReporters a ! j) \<in> set (fst (reportGoStats_body a rt))"
  proof (intro allI impI)
    fix j
    assume "j < length (StatsReporters a)"
      and "\<forall>k<j. \<not> ReportGoStats_panics rt (StatsReporters a ! k)"
    then have "StatsReporters a ! j \<in> set (reached (ReportGoStats_panics rt) (StatsReporters a))"
      by (rule reached_nth)
    then show "?call (StatsReporters a ! j) \<in> set (fst (reportGoStats_body a rt))"
      by (simp add: reportGoStats_body_fst)
  qed
  have whole: "\<not> list_ex (ReportGoStats_panics rt) (StatsReporters a) \<longrightarrow>
         \<not> snd (reportGoStats_body a rt)
         \<and> length (fst (reportGoStats_body a rt)) = length (StatsReporters a) + 1"
    by (simp add: reportGoStats_body_fst reportGoStats_body_snd reached_all)
  have stopped: "\<forall>j<length (StatsReporters a).
         ReportGoStats_panics rt (StatsReporters a ! j) \<longrightarrow>
         snd (reportGoStats_body a rt)
         \<and> length (fst (reportGoStats_body a rt)) \<le> Suc j
         \<and> Sleep (30 * Second) \<notin> set (fst (reportGoStats_body a rt))"
  proof (intro allI impI)
    fix j
    assume j: "j < length (StatsReporters a)"
      and panic: "ReportGoStats_panics rt (StatsReporters a ! j)"
    then have some: "list_ex (ReportGoStats_panics rt) (StatsReporters a)"
      by (auto simp: list_ex_iff)
    with reached_stops [OF j, of "ReportGoStats_panics rt"] panic
    show "snd (reportGoStats_body a rt)
         \<and> length (fst (reportGoStats_body a rt)) \<le> Suc j
         \<and> Sleep (30 * Second) \<notin> set (fst (reportGoStats_body a rt))"
      by (auto simp: reportGoStats_body_fst reportGoStats_body_snd)
  qed
  have quiet: "\<forall>x \<in> set (fst (reportGoStats_body a rt)).
         (\<forall>m. x \<noteq> LogInfo m) \<and> (\<forall>s. x \<noteq> LogWarn s)"
    using reportGoStats_body_actions [of _ a rt] by blast
  have each: "\<forall>j<length hs.
         (delete_query (hs ! j), [token]) \<in>
           set (drop (length (Execs (dbs w (tp_db (hs ! j)))))
                  (Execs (dbs (handleInvalidToken hs token w) (tp_db (hs ! j)))))"
    using delivered_to_store [of _ hs token w] by simp
  have marshal: "\<forall>j. json_Marshal res = Inr j \<longrightarrow>
          sendToFeedbackReporters rs res w = (feedback_fanout rs j w, None)"
    by (simp add: sendToFeedbackReporters_def)
  from called whole stopped quiet each marshal
    handleInvalidToken_Execs [of hs token w] handleInvalidToken_log [of hs token w]
    feedback_fanout_Sent [of rs jres w] feedback_fanout_log [of rs jres w]
  show ?thesis by blast
qed

text \<open>
  C4. A feedback call whose payload cannot be serialized returns the serialization
  error and leaves everything as it was: no reporter is given anything and nothing is
  logged.
\<close>

theorem serialization_failure_aborts_fanout:
  assumes "json_Marshal res = Inl err"
  shows "sendToFeedbackReporters rs res w = (w, Some err)
         \<and> (\<forall>k. Sent (producers (fst (sendToFeedbackReporters rs res w)) k) = Sent (producers w k))
         \<and> log (fst (sendToFeedbackReporters rs res w)) = log w"
  using assms by (simp add: sendToFeedbackReporters_def)

text \<open>
  C5. When the store of one of the handlers returns an error on every statement,
  invalid-token handling still executes that handler's removal with the token on that
  store and logs the error; the store's error setting and the feedback sinks are
  untouched, and the helper gives back a world and no error. With that handler alone,
  the call changes the store's list of statements and the log and nothing else.
\<close>

theorem store_error_is_swallowed:
  assumes "h \<in> set hs" and "Error (dbs w (tp_db h)) = Some err"
  shows "(delete_query h, [token]) \<in>
           set (drop (length (Execs (dbs w (tp_db h))))
                  (Execs (dbs (handleInvalidToken hs token w) (tp_db h))))
         \<and> LogError (table h) err \<in>
             set (drop (length (log w)) (log (handleInvalidToken hs token w)))
         \<and> Error (dbs (handleInvalidToken hs token w) (tp_db h)) = Some err
         \<and> producers (handleInvalidToken hs token w) = producers w
         \<and> handleInvalidToken [h] token w =
             w\<lparr>dbs := (dbs w)(tp_db h := (dbs w (tp_db h))
                          \<lparr>Execs := Execs (dbs w (tp_db h)) @ [(delete_query h, [token])]\<rparr>),
               log := log w @ [LogError (table h) err]\<rparr>"
proof -
  have single: "handleInvalidToken [h] token w =
             w\<lparr>dbs := (dbs w)(tp_db h := (dbs w (tp_db h))
                          \<lparr>Execs := Execs (dbs w (tp_db h)) @ [(delete_query h, [token])]\<rparr>),
               log := log w @ [LogError (table h) err]\<rparr>"
    using assms(2) by (simp add: HandleToken_def Exec_def)
  from single delivered_to_store [OF assms(1)] failure_logged [OF assms]
    handleInvalidToken_Error [of hs token w "tp_db h"] assms(2)
    handleInvalidToken_producers [of hs token w]
  show ?thesis by simp
qed


theorem sink_failure_is_isolated_unless_panic_witness:
  "Error (dbs example_world (tp_db (example_handlers ! 1))) = Some (Errorf ''pg: error'')
   \<and> Execs (dbs (handleInvalidToken example_handlers ''tok-A'' example_world) 0) =
       [(''select 1'', []), (''DELETE FROM test_apns WHERE token = ?0;'', [''tok-A''])]
   \<and> Execs (dbs (handleInvalidToken example_handlers ''tok-A'' example_world) 1) =
       [(''select 1'', []), (''DELETE FROM test_apns WHERE token = ?0;'', [''tok-A''])]
   \<and> Execs (dbs (handleInvalidToken example_handlers ''tok-A'' example_world) 2) =
       [(''select 1'', []), (''DELETE FROM test_apns WHERE token = ?0;'', [''tok-A''])]
   \<and> log (handleInvalidToken example_handlers ''tok-A'' example_world) =
       [LogError ''test_apns'' (Errorf ''pg: error'')]
   \<and> json_Marshal (GoBool True) = Inr ''true''
   \<and> snd (sendToFeedbackReporters example_reporters (GoBool True) example_world) = None
   \<and> Sent (producers (fst (sendToFeedbackReporters example_reporters (GoBool True)
                               example_world)) 0) = [''true'']
   \<and> Sent (producers (fst (sendToFeedbackReporters example_reporters (GoBool True)
                               example_world)) 1) = [''true'']
   \<and> Sent (producers (fst (sendToFeedbackReporters example_reporters (GoBool True)
                               example_world)) 2) = [''true'']
   \<and> log (fst (sendToFeedbackReporters example_reporters (GoBool True) example_world)) =
       [LogError ''feedback-b'' (Errorf ''kafka: timeout'')]
   \<and> \<not> list_ex (ReportGoStats_panics example_runtime) (StatsReporters example_three_reporters)
   \<and> ReportGoStats ''statsd-c'' 5 4096 12 8192 777
       \<in> set (fst (reportGoStats_body example_three_reporters example_runtime))
   \<and> ReportGoStats_panics example_broken_runtime (StatsReporters example_three_reporters ! 1)
   \<and> snd (reportGoStats_body example_three_reporters example_broken_runtime)
   \<and> length (fst (reportGoStats_body example_three_reporters example_broken_runtime)) \<le> 2"
proof -
  note quiet = sink_failure_is_isolated_unless_panic
    [where hs = example_handlers and token = "''tok-A''" and w = example_world
       and rs = example_reporters and jres = "''true''" and res = "GoBool True"
       and a = example_three_reporters and rt = example_runtime]
  note broken = sink_failure_is_isolated_unless_panic
    [where hs = example_handlers and token = "''tok-A''" and w = example_world
       and rs = example_reporters and jres = "''true''" and res = "GoBool True"
       and a = example_three_reporters and rt = example_broken_runtime]
  have reporters: "StatsReporters example_three_reporters = [''statsd-a'', ''statsd-b'', ''statsd-c'']"
    by (simp add: example_three_reporters_def)
  have no_panic: "\<not> list_ex (ReportGoStats_panics example_runtime)
                      (StatsReporters example_three_reporters)"
    by (simp add: example_runtime_def list_ex_iff)
  have panic: "ReportGoStats_panics example_broken_runtime
                 (StatsReporters example_three_reporters ! 1)"
    by (simp add: reporters example_broken_runtime_def)
  have sample: "ReportGoStats (StatsReporters example_three_reporters ! 2)
      (NumGoroutine example_runtime) (Alloc (ReadMemStats example_runtime))
      (HeapObjects (ReadMemStats example_runtime)) (NextGC (ReadMemStats example_runtime))
      (gcTime (ReadMemStats example_runtime)) = ReportGoStats ''statsd-c'' 5 4096 12 8192 777"
    by (simp add: reporters example_runtime_def example_memstats_def gcTime_def)
  have third: "ReportGoStats ''statsd-c'' 5 4096 12 8192 777
       \<in> set (fst (reportGoStats_body example_three_reporters example_runtime))"
  proof -
    have "\<forall>k<2. \<not> ReportGoStats_panics example_runtime
                     (StatsReporters example_three_reporters ! k)"
      by (simp add: example_runtime_def)
    moreover have "2 < length (StatsReporters example_three_reporters)"
      by (simp add: reporters)
    ultimately show ?thesis using quiet sample by metis
  qed
  have ended: "snd (reportGoStats_body example_three_reporters example_broken_runtime)
     \<and> length (fst (reportGoStats_body example_three_reporters example_broken_runtime)) \<le> 2"
  proof -
    have "1 < length (StatsReporters example_three_reporters)"
      by (simp add: reporters)
    with panic broken
    have "snd (reportGoStats_body example_three_reporters example_broken_runtime)
      \<and> length (fst (reportGoStats_body example_three_reporters example_broken_runtime)) \<le> Suc 1"
      by blast
    then show ?thesis by simp
  qed
  have stores: "Execs (dbs (handleInvalidToken example_handlers ''tok-A'' example_world) 0) =
       [(''select 1'', []), (''DELETE FROM test_apns WHERE token = ?0;'', [''tok-A''])]"
    "Execs (dbs (handleInvalidToken example_handlers ''tok-A'' example_world) 1) =
       [(''select 1'', []), (''DELETE FROM test_apns WHERE token = ?0;'', [''tok-A''])]"
    "Execs (dbs (handleInvalidToken example_handlers ''tok-A'' example_world) 2) =
       [(''select 1'', []), (''DELETE FROM test_apns WHERE token = ?0;'', [''tok-A''])]"
    using quiet
    by (simp_all add: example_handlers_def example_world_def delete_query_def)
  have logged: "log (handleInvalidToken example_handlers ''tok-A'' example_world) =
       [LogError ''test_apns'' (Errorf ''pg: error'')]"
    using quiet by (simp add: example_handlers_def example_world_def)
  have failing: "Error (dbs example_world (tp_db (example_handlers ! 1)))
       = Some (Errorf ''pg: error'')"
    by (simp add: example_handlers_def example_world_def)
  have marshal: "json_Marshal (GoBool True) = Inr ''true''"
    by simp
  have sent: "sendToFeedbackReporters example_reporters (GoBool True) example_world =
      (feedback_fanout example_reporters ''true'' example_world, None)"
    using quiet marshal by blast
  have feedback:
    "Sent (producers (feedback_fanout example_reporters ''true'' example_world) 0) = [''true'']"
    "Sent (producers (feedback_fanout example_reporters ''true'' example_world) 1) = [''true'']"
    "Sent (producers (feedback_fanout example_reporters ''true'' example_world) 2) = [''true'']"
    "log (feedback_fanout example_reporters ''true'' example_world) =
       [LogError ''feedback-b'' (Errorf ''kafka: timeout'')]"
    using quiet by (simp_all add: example_reporters_def example_world_def)
  from failing stores logged marshal sent feedback no_panic third panic ended
  show ?thesis by simp
qed

theorem serialization_failure_aborts_fanout_witness:
  "json_Marshal (GoChan ''int'') = Inl (Errorf ''json: unsupported type: chan int'')
   \<and> snd (sendToFeedbackReporters example_reporters (GoChan ''int'') example_world) =
       Some (Errorf ''json: unsupported type: chan int'')
   \<and> Sent (producers (fst (sendToFeedbackReporters example_reporters (GoChan ''int'')
                               example_world)) 0) = []"
  using serialization_failure_aborts_fanout
    [of "GoChan ''int''" "Errorf ''json: unsupported type: chan int''" example_reporters
        example_world]
  by (simp add: example_world_def)

theorem store_error_is_swallowed_witness:
  "Error (dbs example_world 1) = Some (Errorf ''pg: error'')
   \<and> Execs (dbs (handleInvalidToken [\<lparr>table = ''test_apns'', tp_db = 1\<rparr>] ''tok-X''
                    example_world) 1) =
       [(''select 1'', []), (''DELETE FROM test_apns WHERE token = ?0;'', [''tok-X''])]
   \<and> log (handleInvalidToken [\<lparr>table = ''test_apns'', tp_db = 1\<rparr>] ''tok-X'' example_world) =
       [LogError ''test_apns'' (Errorf ''pg: error'')]"
  using store_error_is_swallowed
    [of "\<lparr>table = ''test_apns'', tp_db = 1\<rparr>" "[\<lparr>table = ''test_apns'', tp_db = 1\<rparr>]"
        example_world "Errorf ''pg: error''" "''tok-X''"]
  by (simp add: example_world_def delete_query_def)


end
